theory Spec2Isabelle
  imports Main
begin

section \<open>Exceptions and results\<close>

text \<open>
  The exceptions of the source are values. A function of the source that returns a value
  or raises has the result type \<open>error + 'a\<close>, with \<open>Inl\<close> for the exception. A method
  that mutates its object returns the pair of the exception it raised, if any, and the
  object as the call leaves it: a method of the source can raise after it has already
  assigned to a field, and the pair keeps that visible.

  \<open>Unmodelled\<close> is not an exception of the source. It is the result of a constructor
  call whose arguments bind but have other types than the annotated ones, for which the
  body of the constructor is not modelled; the source makes no such call.
\<close>

datatype error =
    ValueError | IndexError | KeyError | TypeError | AttributeError
  | FileNotFoundError | JSONDecodeError | OSError
  | Unmodelled

definition bind :: "error + 'a \<Rightarrow> ('a \<Rightarrow> error + 'b) \<Rightarrow> error + 'b" where
  "bind m f = (case m of Inl e \<Rightarrow> Inl e | Inr x \<Rightarrow> f x)"

text \<open>Python's truth value of an \<open>Optional[str]\<close>: \<open>None\<close> and the empty string are false.\<close>

fun truthy :: "string option \<Rightarrow> bool" where
  "truthy None = False"
| "truthy (Some s) = (s \<noteq> [])"

section \<open>Calendar dates: \<open>datetime.strptime\<close> and \<open>strftime\<close> with \<open>'%d/%m/%Y'\<close>\<close>

text \<open>
  Every \<open>datetime\<close> of the program comes from \<open>strptime(s, '%d/%m/%Y')\<close>, so its time of
  day is midnight and it is determined by year, month and day. Python compares two such
  values chronologically, which is the lexicographic order on (year, month, day).
  Strings are sequences of 8-bit characters here: the model covers ASCII text.
\<close>

datatype date = Date (year: nat) (month: nat) (day: nat)

definition date_gt :: "date \<Rightarrow> date \<Rightarrow> bool" where
  "date_gt a b =
     (if year a = year b
      then (if month a = month b then day b < day a else month b < month a)
      else year b < year a)"

definition is_digit :: "char \<Rightarrow> bool" where
  "is_digit c = (c \<in> set ''0123456789'')"

definition digit_val :: "char \<Rightarrow> nat" where
  "digit_val c = of_char c - 48"

text \<open>
  \<open>str.split(sep)\<close> for a one-character separator: the pieces between the occurrences
  of the separator, empty pieces included; a string without the separator is one piece.
\<close>

fun split_on :: "char \<Rightarrow> string \<Rightarrow> string list" where
  "split_on c [] = [[]]"
| "split_on c (x # xs) =
     (if x = c then [] # split_on c xs
      else (x # hd (split_on c xs)) # tl (split_on c xs))"

text \<open>
  \<open>strptime\<close> turns the format \<open>'%d/%m/%Y'\<close> into the regular expression
  \<^verbatim>\<open>(3[0-1]|[1-2]\d|0[1-9]|[1-9]| [1-9])/(1[0-2]|0[1-9]|[1-9])/(\d\d\d\d)\<close>,
  matches it at the start of the text and raises ValueError when it does not match or
  when text remains after the match. No group can match a \<open>'/'\<close>, so the text matches
  exactly when its three pieces between the slashes match the three groups. The
  functions \<open>match_d\<close>, \<open>match_m\<close> and \<open>match_Y\<close> are the three groups with the numbers
  they denote.
\<close>

fun match_d :: "string \<Rightarrow> nat option" where
  "match_d [a] = (if a \<in> set ''123456789'' then Some (digit_val a) else None)"
| "match_d [a, b] =
     (if a = CHR ''3'' \<and> b \<in> set ''01'' then Some (30 + digit_val b)
      else if a \<in> set ''12'' \<and> is_digit b then Some (10 * digit_val a + digit_val b)
      else if a \<in> set ''0 '' \<and> b \<in> set ''123456789'' then Some (digit_val b)
      else None)"
| "match_d _ = None"

fun match_m :: "string \<Rightarrow> nat option" where
  "match_m [a] = (if a \<in> set ''123456789'' then Some (digit_val a) else None)"
| "match_m [a, b] =
     (if a = CHR ''1'' \<and> b \<in> set ''012'' then Some (10 + digit_val b)
      else if a = CHR ''0'' \<and> b \<in> set ''123456789'' then Some (digit_val b)
      else None)"
| "match_m _ = None"

fun match_Y :: "string \<Rightarrow> nat option" where
  "match_Y [a, b, c, d] =
     (if is_digit a \<and> is_digit b \<and> is_digit c \<and> is_digit d
      then Some (1000 * digit_val a + 100 * digit_val b + 10 * digit_val c + digit_val d)
      else None)"
| "match_Y _ = None"

definition is_leap :: "nat \<Rightarrow> bool" where
  "is_leap y = (if y mod 400 = 0 then True else if y mod 100 = 0 then False else y mod 4 = 0)"

definition days_in_month :: "nat \<Rightarrow> nat \<Rightarrow> nat" where
  "days_in_month y m =
     (if m = 2 then (if is_leap y then 29 else 28)
      else if m \<in> {4, 6, 9, 11} then 30 else 31)"

text \<open>
  After the match, the \<open>datetime\<close> constructor raises ValueError for the year 0 and for a
  day the month does not have.
\<close>

definition strptime :: "string \<Rightarrow> error + date" where
  "strptime s =
     (case split_on CHR ''/'' s of
        [d, m, y] \<Rightarrow>
          (case (match_d d, match_m m, match_Y y) of
             (Some dd, Some mm, Some yy) \<Rightarrow>
               (if 1 \<le> yy \<and> dd \<le> days_in_month yy mm then Inr (Date yy mm dd)
                else Inl ValueError)
           | _ \<Rightarrow> Inl ValueError)
      | _ \<Rightarrow> Inl ValueError)"

definition digit_char :: "nat \<Rightarrow> char" where
  "digit_char n = ''0123456789'' ! (n mod 10)"

definition pad2 :: "nat \<Rightarrow> string" where
  "pad2 n = [digit_char (n div 10), digit_char n]"

definition pad4 :: "nat \<Rightarrow> string" where
  "pad4 n = [digit_char (n div 1000), digit_char (n div 100), digit_char (n div 10), digit_char n]"

text \<open>
  \<open>strftime('%d/%m/%Y')\<close>: day and month in two digits, the year in four (the years of
  the program are between 1 and 9999; the C library decides the padding of a year below
  1000, and four digits is what \<open>strptime\<close> reads back).
\<close>

definition strftime :: "date \<Rightarrow> string" where
  "strftime d = pad2 (day d) @ ''/'' @ pad2 (month d) @ ''/'' @ pad4 (year d)"

section \<open>SubTask\<close>

record SubTask =
  st_details :: string
  st_due_date :: "date option"
  st_priority :: string
  st_class_code :: string
  st_completed :: bool

text \<open>\<open>SubTask.__init__\<close>: the due date is parsed when the argument is a non-empty string.\<close>

definition SubTask_init ::
  "string \<Rightarrow> string option \<Rightarrow> string \<Rightarrow> string \<Rightarrow> bool \<Rightarrow> error + SubTask" where
  "SubTask_init details due_date priority class_code completed =
     (if truthy due_date
      then bind (strptime (the due_date))
             (\<lambda>d. Inr \<lparr>st_details = details, st_due_date = Some d, st_priority = priority,
                       st_class_code = class_code, st_completed = completed\<rparr>)
      else Inr \<lparr>st_details = details, st_due_date = None, st_priority = priority,
                st_class_code = class_code, st_completed = completed\<rparr>)"


section \<open>MainTask\<close>

record MainTask =
  mt_name :: string
  mt_due_date :: "date option"
  mt_priority :: string
  mt_status :: string
  mt_class_code :: "string option"
  sub_tasks :: "SubTask list"

text \<open>
  \<open>MainTask.__init__\<close> (the callers that leave out \<open>status\<close> and \<open>class_code\<close> pass the
  defaults \<open>''Not Started''\<close> and \<open>None\<close>): a new main task has no sub-tasks.
\<close>

definition MainTask_init ::
  "string \<Rightarrow> string option \<Rightarrow> string \<Rightarrow> string \<Rightarrow> string option \<Rightarrow> error + MainTask" where
  "MainTask_init name due_date priority status class_code =
     (if truthy due_date
      then bind (strptime (the due_date))
             (\<lambda>d. Inr \<lparr>mt_name = name, mt_due_date = Some d, mt_priority = priority,
                       mt_status = status, mt_class_code = class_code, sub_tasks = []\<rparr>)
      else Inr \<lparr>mt_name = name, mt_due_date = None, mt_priority = priority,
                mt_status = status, mt_class_code = class_code, sub_tasks = []\<rparr>)"

text \<open>
  The test of \<open>add_sub_task\<close> and \<open>edit_sub_task\<close>: both dates are set and the sub-task's
  is strictly later (\<open>self.due_date and d and d > self.due_date\<close>).
\<close>

fun later_than :: "date option \<Rightarrow> date option \<Rightarrow> bool" where
  "later_than (Some d) (Some main) = date_gt d main"
| "later_than _ _ = False"

definition add_sub_task :: "MainTask \<Rightarrow> SubTask \<Rightarrow> error option \<times> MainTask" where
  "add_sub_task self sub_task =
     (if later_than (st_due_date sub_task) (mt_due_date self) then (Some ValueError, self)
      else (None, self\<lparr>sub_tasks := sub_tasks self @ [sub_task]\<rparr>))"

text \<open>\<open>del xs[i - 1]\<close> for an index the caller has checked to be in range.\<close>

definition del_at :: "'a list \<Rightarrow> int \<Rightarrow> 'a list" where
  "del_at xs i = take (nat (i - 1)) xs @ drop (nat i) xs"

definition delete_sub_task :: "MainTask \<Rightarrow> int \<Rightarrow> error option \<times> MainTask" where
  "delete_sub_task self sub_task_index =
     (if 1 \<le> sub_task_index \<and> sub_task_index \<le> int (length (sub_tasks self))
      then (None, self\<lparr>sub_tasks := del_at (sub_tasks self) sub_task_index\<rparr>)
      else (Some IndexError, self))"


text \<open>
  The assignments \<open>edit_sub_task\<close> makes to the sub-task it has selected, in the order
  of the source: the details first, then the due date, which is parsed and compared with
  the main task's due date (the first argument), then the priority. The two
  \<open>ValueError\<close>s, of \<open>strptime\<close> and of the comparison, are raised after the details
  have been assigned.
\<close>

definition set_priority :: "string option \<Rightarrow> SubTask \<Rightarrow> SubTask" where
  "set_priority priority sub_task =
     (if truthy priority then sub_task\<lparr>st_priority := the priority\<rparr> else sub_task)"

definition edit_fields ::
  "date option \<Rightarrow> SubTask \<Rightarrow> string option \<Rightarrow> string option \<Rightarrow> string option
     \<Rightarrow> error option \<times> SubTask" where
  "edit_fields main_due sub_task details due_date priority =
     (let s1 = (if truthy details then sub_task\<lparr>st_details := the details\<rparr> else sub_task)
      in if truthy due_date then
           (case strptime (the due_date) of
              Inl e \<Rightarrow> (Some e, s1)
            | Inr new_due_date \<Rightarrow>
                if later_than (Some new_due_date) main_due then (Some ValueError, s1)
                else (None, set_priority priority (s1\<lparr>st_due_date := Some new_due_date\<rparr>)))
         else (None, set_priority priority s1))"

definition edit_sub_task ::
  "MainTask \<Rightarrow> int \<Rightarrow> string option \<Rightarrow> string option \<Rightarrow> string option
     \<Rightarrow> error option \<times> MainTask" where
  "edit_sub_task self sub_task_index details due_date priority =
     (if 1 \<le> sub_task_index \<and> sub_task_index \<le> int (length (sub_tasks self))
      then (case edit_fields (mt_due_date self) (sub_tasks self ! nat (sub_task_index - 1))
                   details due_date priority of
              (e, sub_task) \<Rightarrow>
                (e, self\<lparr>sub_tasks := (sub_tasks self)[nat (sub_task_index - 1) := sub_task]\<rparr>))
      else (Some IndexError, self))"


section \<open>Searching: which list object is returned\<close>











section \<open>Serialization\<close>

text \<open>
  The values of the dictionaries that \<open>to_dict\<close> builds and \<open>json.load\<close> returns
  (floating-point numbers left out). A dictionary is the list of its items, in insertion
  order, with distinct keys.
\<close>

datatype pyval =
    PNone
  | PBool bool
  | PInt int
  | PStr string
  | PList "pyval list"
  | PDict "(string \<times> pyval) list"

text \<open>
  \<open>str(v)\<close>. For a number, a list or a dictionary it is Python's \<open>repr\<close>, which is taken
  as the parameter \<open>repr\<close>: every statement below holds for every such function.
\<close>

fun py_str :: "(pyval \<Rightarrow> string) \<Rightarrow> pyval \<Rightarrow> string" where
  "py_str repr PNone = ''None''"
| "py_str repr (PBool b) = (if b then ''True'' else ''False'')"
| "py_str repr (PStr s) = s"
| "py_str repr v = repr v"

fun py_bool :: "pyval \<Rightarrow> bool" where
  "py_bool PNone = False"
| "py_bool (PBool b) = b"
| "py_bool (PInt i) = (i \<noteq> 0)"
| "py_bool (PStr s) = (s \<noteq> [])"
| "py_bool (PList xs) = (xs \<noteq> [])"
| "py_bool (PDict kvs) = (kvs \<noteq> [])"

text \<open>\<open>data[key]\<close> with a string key: only a dictionary can be indexed by a string.\<close>

fun py_getitem :: "pyval \<Rightarrow> string \<Rightarrow> error + pyval" where
  "py_getitem (PDict kvs) key = (case map_of kvs key of None \<Rightarrow> Inl KeyError | Some v \<Rightarrow> Inr v)"
| "py_getitem _ key = Inl TypeError"

text \<open>\<open>data.get(key, dflt)\<close>, and \<open>data.get(key)\<close> with \<open>None\<close> for \<open>dflt\<close>: only a dictionary has the method.\<close>

fun py_get :: "pyval \<Rightarrow> string \<Rightarrow> pyval \<Rightarrow> error + pyval" where
  "py_get (PDict kvs) key dflt = (case map_of kvs key of None \<Rightarrow> Inr dflt | Some v \<Rightarrow> Inr v)"
| "py_get _ key dflt = Inl AttributeError"

text \<open>
  Iteration, as the list comprehensions of \<open>from_dict\<close> do it: a list gives its elements,
  a string its characters, a dictionary its keys; nothing else is iterable.
\<close>

fun py_iter :: "pyval \<Rightarrow> error + pyval list" where
  "py_iter (PList xs) = Inr xs"
| "py_iter (PStr s) = Inr (map (\<lambda>c. PStr [c]) s)"
| "py_iter (PDict kvs) = Inr (map (\<lambda>kv. PStr (fst kv)) kvs)"
| "py_iter _ = Inl TypeError"

text \<open>A list comprehension whose element expression can raise: the first exception ends it.\<close>

fun map_result :: "('a \<Rightarrow> error + 'b) \<Rightarrow> 'a list \<Rightarrow> error + 'b list" where
  "map_result f [] = Inr []"
| "map_result f (x # xs) = bind (f x) (\<lambda>y. bind (map_result f xs) (\<lambda>ys. Inr (y # ys)))"

definition date_field :: "date option \<Rightarrow> pyval" where
  "date_field d = (case d of Some x \<Rightarrow> PStr (strftime x) | None \<Rightarrow> PNone)"

definition SubTask_to_dict :: "SubTask \<Rightarrow> pyval" where
  "SubTask_to_dict self =
     PDict [(''details'', PStr (st_details self)),
            (''due_date'', date_field (st_due_date self)),
            (''priority'', PStr (st_priority self)),
            (''class_code'', PStr (st_class_code self)),
            (''completed'', PBool (st_completed self))]"

definition SubTask_from_dict :: "(pyval \<Rightarrow> string) \<Rightarrow> pyval \<Rightarrow> error + SubTask" where
  "SubTask_from_dict repr data =
     bind (py_getitem data ''details'') (\<lambda>details.
     bind (py_getitem data ''due_date'') (\<lambda>due_date.
     bind (py_getitem data ''priority'') (\<lambda>priority.
     bind (py_getitem data ''class_code'') (\<lambda>class_code.
     bind (py_getitem data ''completed'') (\<lambda>completed.
       SubTask_init (py_str repr details) (Some (py_str repr due_date)) (py_str repr priority)
         (py_str repr class_code) (py_bool completed))))))"

definition MainTask_to_dict :: "MainTask \<Rightarrow> pyval" where
  "MainTask_to_dict self =
     PDict [(''name'', PStr (mt_name self)),
            (''due_date'', date_field (mt_due_date self)),
            (''priority'', PStr (mt_priority self)),
            (''status'', PStr (mt_status self)),
            (''class_code'', (case mt_class_code self of Some c \<Rightarrow> PStr c | None \<Rightarrow> PNone)),
            (''sub_tasks'', PList (map SubTask_to_dict (sub_tasks self)))]"

definition MainTask_from_dict :: "(pyval \<Rightarrow> string) \<Rightarrow> pyval \<Rightarrow> error + MainTask" where
  "MainTask_from_dict repr data =
     bind (py_getitem data ''name'') (\<lambda>name.
     bind (py_getitem data ''due_date'') (\<lambda>due_date.
     bind (py_getitem data ''priority'') (\<lambda>priority.
     bind (py_getitem data ''status'') (\<lambda>status.
     bind (py_get data ''class_code'' PNone) (\<lambda>class_code.
     bind (MainTask_init (py_str repr name) (Some (py_str repr due_date)) (py_str repr priority)
             (py_str repr status) (Some (py_str repr class_code))) (\<lambda>main_task.
     bind (py_getitem data ''sub_tasks'') (\<lambda>sub_tasks_data.
     bind (py_iter sub_tasks_data) (\<lambda>items.
     bind (map_result (SubTask_from_dict repr) items) (\<lambda>subs.
       Inr (main_task\<lparr>sub_tasks := subs\<rparr>))))))))))"

section \<open>Credentials\<close>

text \<open>
  \<open>hashlib.sha256(text.encode()).hexdigest()\<close> is the lower-case hexadecimal text of the
  digest's bytes. The digest itself is the parameter \<open>sha256\<close>, from the text to the
  bytes of its digest: every statement below holds for every digest function.
\<close>

definition hex_digit :: "nat \<Rightarrow> char" where
  "hex_digit n = ''0123456789abcdef'' ! (n mod 16)"

definition hex_byte :: "char \<Rightarrow> string" where
  "hex_byte c = [hex_digit ((of_char c :: nat) div 16), hex_digit (of_char c)]"

definition hexdigest :: "string \<Rightarrow> string" where
  "hexdigest bytes = concat (map hex_byte bytes)"

definition hash_password :: "(string \<Rightarrow> string) \<Rightarrow> string \<Rightarrow> string" where
  "hash_password sha256 password =
     (let salt = take 16 (hexdigest (sha256 password))
      in hexdigest (sha256 (salt @ password)) @ '':'' @ salt)"

section \<open>Student\<close>

record Student =
  student_id :: string
  password :: string
  task_lists :: "MainTask list"

text \<open>
  \<open>verify_password\<close>: unpacking \<open>self.password.split(':')\<close> into two names raises
  ValueError unless the split has exactly two pieces.
\<close>

definition verify_password :: "(string \<Rightarrow> string) \<Rightarrow> Student \<Rightarrow> string \<Rightarrow> error + bool" where
  "verify_password sha256 self candidate =
     (case split_on CHR '':'' (password self) of
        [stored_password, salt] \<Rightarrow> Inr (stored_password = hexdigest (sha256 (salt @ candidate)))
      | _ \<Rightarrow> Inl ValueError)"

text \<open>The body of \<open>Student.__init__\<close>, at the types of its annotations.\<close>

definition Student_init ::
  "(string \<Rightarrow> string) \<Rightarrow> string \<Rightarrow> string \<Rightarrow> MainTask list option \<Rightarrow> bool \<Rightarrow> Student" where
  "Student_init sha256 sid pw tls is_hashed =
     \<lparr>student_id = sid,
      password = (if \<not> is_hashed then hash_password sha256 pw else pw),
      task_lists = (case tls of None \<Rightarrow> [] | Some ts \<Rightarrow> if ts \<noteq> [] then ts else [])\<rparr>"


definition delete_task_list :: "Student \<Rightarrow> int \<Rightarrow> error option \<times> Student" where
  "delete_task_list self list_index =
     (if 1 \<le> list_index \<and> list_index \<le> int (length (task_lists self))
      then (None, self\<lparr>task_lists := del_at (task_lists self) list_index\<rparr>)
      else (Some IndexError, self))"




definition Student_to_dict :: "Student \<Rightarrow> pyval" where
  "Student_to_dict self =
     PDict [(''password'', PStr (password self)),
            (''task_lists'', PList (map MainTask_to_dict (task_lists self)))]"

subsection \<open>Calling the constructor\<close>

text \<open>
  \<open>Student.from_dict\<close> calls the constructor with four positional arguments and one
  keyword argument, and the second positional argument is the type \<open>str\<close> itself. The
  arguments of a call are therefore values of several kinds, and Python binds them to the
  parameters before the body runs: positional arguments to the parameters in order, then
  each keyword argument to the parameter of its name. The call raises TypeError when
  there are more positional arguments than parameters, when a keyword names no parameter,
  when it names one that a positional argument has already filled, and when a parameter
  without default stays unbound.
\<close>

datatype arg =
    A_str string
  | A_str_type
  | A_val pyval
  | A_tasks "MainTask list"
  | A_bool bool
  | A_none

definition bind_args :: "string list \<Rightarrow> arg list \<Rightarrow> (string \<times> arg) list \<Rightarrow> error + (string \<times> arg) list" where
  "bind_args params pos kw =
     (if length params < length pos then Inl TypeError
      else if list_ex (\<lambda>k. k \<notin> set params) (map fst kw) then Inl TypeError
      else if list_ex (\<lambda>k. k \<in> set (take (length pos) params)) (map fst kw) then Inl TypeError
      else Inr (zip params pos @ kw))"

fun arg_tasks :: "arg option \<Rightarrow> MainTask list option option" where
  "arg_tasks None = Some None"
| "arg_tasks (Some A_none) = Some None"
| "arg_tasks (Some (A_tasks ts)) = Some (Some ts)"
| "arg_tasks _ = None"

fun arg_flag :: "arg option \<Rightarrow> bool option" where
  "arg_flag None = Some False"
| "arg_flag (Some (A_bool b)) = Some b"
| "arg_flag _ = None"

text \<open>
  \<open>Student(...)\<close>: the signature is
  \<open>(student_id, password, task_lists=None, is_hashed=False)\<close>.
\<close>

definition Student_call ::
  "(string \<Rightarrow> string) \<Rightarrow> arg list \<Rightarrow> (string \<times> arg) list \<Rightarrow> error + Student" where
  "Student_call sha256 pos kw =
     bind (bind_args [''student_id'', ''password'', ''task_lists'', ''is_hashed''] pos kw) (\<lambda>b.
       case (map_of b ''student_id'', map_of b ''password'') of
         (Some sid, Some pw) \<Rightarrow>
           (case (sid, pw, arg_tasks (map_of b ''task_lists''), arg_flag (map_of b ''is_hashed'')) of
              (A_str i, A_str p, Some tls, Some h) \<Rightarrow> Inr (Student_init sha256 i p tls h)
            | _ \<Rightarrow> Inl Unmodelled)
       | _ \<Rightarrow> Inl TypeError)"

text \<open>
  \<open>Student.from_dict\<close>:
  \<^verbatim>\<open>task_lists = [MainTask.from_dict(d) for d in data.get("task_lists", [])]\<close>
  \<^verbatim>\<open>return Student(student_id, str, data["password"], task_lists, is_hashed=True)\<close>
\<close>

definition Student_from_dict ::
  "(string \<Rightarrow> string) \<Rightarrow> (pyval \<Rightarrow> string) \<Rightarrow> string \<Rightarrow> pyval \<Rightarrow> error + Student" where
  "Student_from_dict sha256 repr sid data =
     bind (py_get data ''task_lists'' (PList [])) (\<lambda>task_lists_data.
     bind (py_iter task_lists_data) (\<lambda>items.
     bind (map_result (MainTask_from_dict repr) items) (\<lambda>tls.
     bind (py_getitem data ''password'') (\<lambda>pw.
       Student_call sha256 [A_str sid, A_str_type, A_val pw, A_tasks tls]
         [(''is_hashed'', A_bool True)]))))"

section \<open>The store of students: \<open>load_students\<close>\<close>

text \<open>
  What \<open>open(self.filename)\<close> followed by \<open>json.load(file)\<close> gives is the input
  \<open>read\<close>: the parsed value, or the exception one of the two raised (\<open>FileNotFoundError\<close>
  for a missing file, \<open>JSONDecodeError\<close> for text that is not JSON, \<open>OSError\<close> for any
  other failure to read). The function returns the dictionary of students, as the list of
  its items, and what it printed.
\<close>

datatype diagnostic =
    File_not_found string
  | Error_decoding_JSON
  | Unexpected_error error

fun py_items :: "pyval \<Rightarrow> error + (string \<times> pyval) list" where
  "py_items (PDict kvs) = Inr kvs"
| "py_items _ = Inl AttributeError"

definition load_students ::
  "(string \<Rightarrow> string) \<Rightarrow> (pyval \<Rightarrow> string) \<Rightarrow> string \<Rightarrow> error + pyval
     \<Rightarrow> (string \<times> Student) list \<times> diagnostic list" where
  "load_students sha256 repr filename read =
     (case bind read (\<lambda>data.
             bind (py_items data)
               (map_result (\<lambda>item.
                  bind (Student_from_dict sha256 repr (fst item) (snd item))
                    (\<lambda>student. Inr (fst item, student))))) of
        Inr students \<Rightarrow> (students, [])
      | Inl FileNotFoundError \<Rightarrow> ([], [File_not_found filename])
      | Inl JSONDecodeError \<Rightarrow> ([], [Error_decoding_JSON])
      | Inl e \<Rightarrow> ([], [Unexpected_error e]))"

section \<open>The operations on a student, and the date-containment invariant\<close>








section \<open>Concrete inputs\<close>

text \<open>
  The main task and the sub-tasks of the scenario: a main task due on 1 June 2025, a
  sub-task due on 15 May 2025 and one due on 10 June 2025, after the main task.
\<close>

definition essay :: MainTask where
  "essay = \<lparr>mt_name = ''Essay'', mt_due_date = Some (Date 2025 6 1), mt_priority = ''High'',
            mt_status = ''Not Started'', mt_class_code = None, sub_tasks = []\<rparr>"

definition draft_intro :: SubTask where
  "draft_intro = \<lparr>st_details = ''Draft intro'', st_due_date = Some (Date 2025 5 15),
                  st_priority = ''Medium'', st_class_code = ''N/A'', st_completed = False\<rparr>"

definition late_sub_task :: SubTask where
  "late_sub_task = \<lparr>st_details = ''Proofread'', st_due_date = Some (Date 2025 6 10),
                    st_priority = ''Low'', st_class_code = ''N/A'', st_completed = False\<rparr>"





section \<open>Facts about the concrete inputs\<close>

lemma strptime_examples:
  "strptime ''01/06/2025'' = Inr (Date 2025 6 1)"
  "strptime ''15/05/2025'' = Inr (Date 2025 5 15)"
  "strptime ''10/06/2025'' = Inr (Date 2025 6 10)"
  "strptime ''01/05/2025'' = Inr (Date 2025 5 1)"
  by (simp_all add: strptime_def digit_val_def is_digit_def days_in_month_def is_leap_def)

lemma strptime_None: "strptime ''None'' = Inl ValueError"
  by (simp add: strptime_def)


section \<open>Adding a sub-task\<close>

lemma later_than_iff:
  "later_than a b \<longleftrightarrow> (a \<noteq> None \<and> b \<noteq> None \<and> date_gt (the a) (the b))"
  by (cases a; cases b) auto

text \<open>
  C4. \<open>add_sub_task\<close> succeeds exactly when the sub-task's due date is not strictly
  after the main task's, or one of the two dates is absent. When it succeeds the sub-task
  is appended at the end of the sequence; when it fails it raises ValueError and the main
  task is unchanged.
\<close>

theorem add_sub_task_succeeds_iff:
  "(fst (add_sub_task m s) = None) =
     (st_due_date s = None \<or> mt_due_date m = None
        \<or> \<not> date_gt (the (st_due_date s)) (the (mt_due_date m)))
   \<and> (fst (add_sub_task m s) = None \<longrightarrow>
        snd (add_sub_task m s) = m\<lparr>sub_tasks := sub_tasks m @ [s]\<rparr>)
   \<and> (fst (add_sub_task m s) \<noteq> None \<longrightarrow> add_sub_task m s = (Some ValueError, m))"
  by (auto simp: add_sub_task_def later_than_iff)

theorem add_sub_task_succeeds_iff_witness:
  "\<not> date_gt (the (st_due_date draft_intro)) (the (mt_due_date essay))
   \<and> add_sub_task essay draft_intro = (None, essay\<lparr>sub_tasks := [draft_intro]\<rparr>)
   \<and> date_gt (the (st_due_date late_sub_task)) (the (mt_due_date (essay\<lparr>sub_tasks := [draft_intro]\<rparr>)))
   \<and> add_sub_task (essay\<lparr>sub_tasks := [draft_intro]\<rparr>) late_sub_task
       = (Some ValueError, essay\<lparr>sub_tasks := [draft_intro]\<rparr>)"
  using add_sub_task_succeeds_iff [of essay draft_intro]
    add_sub_task_succeeds_iff [of "essay\<lparr>sub_tasks := [draft_intro]\<rparr>" late_sub_task]
  by (simp add: add_sub_task_def date_gt_def essay_def draft_intro_def late_sub_task_def)

section \<open>Editing a sub-task\<close>

text \<open>
  C2. An edit of the sub-task due on 15 May 2025 with new details, the due date
  10 June 2025, after the main task's 1 June 2025, and a new priority raises ValueError
  and leaves the due date and the priority as they were, but the details have been
  replaced: the call is not atomic.
\<close>

theorem edit_sub_task_applies_details_then_raises:
  "edit_sub_task (essay\<lparr>sub_tasks := [draft_intro]\<rparr>) 1
     (Some ''New details'') (Some ''10/06/2025'') (Some ''Low'')
   = (Some ValueError,
      essay\<lparr>sub_tasks := [draft_intro\<lparr>st_details := ''New details''\<rparr>]\<rparr>)"
  by (simp add: edit_sub_task_def edit_fields_def strptime_examples essay_def date_gt_def)

lemma edit_fields_violation:
  "strptime d = Inr new \<Longrightarrow> later_than (Some new) main_due \<Longrightarrow> d \<noteq> [] \<Longrightarrow>
   edit_fields main_due s details (Some d) priority
     = (Some ValueError, if truthy details then s\<lparr>st_details := the details\<rparr> else s)"
  by (simp add: edit_fields_def)

lemma edit_sub_task_rejected_without_details:
  assumes "1 \<le> i" "i \<le> int (length (sub_tasks m))" "strptime d = Inr new"
    "later_than (Some new) (mt_due_date m)" "\<not> truthy details"
  shows "edit_sub_task m i details (Some d) priority = (Some ValueError, m)"
proof -
  from assms(3) have "d \<noteq> []" by (auto simp: strptime_def)
  with assms show ?thesis
    by (simp add: edit_sub_task_def edit_fields_violation)
qed

section \<open>The date-containment invariant\<close>






















section \<open>Deleting a position\<close>

lemma del_at_length: "1 \<le> k \<Longrightarrow> k \<le> int (length xs) \<Longrightarrow> length (del_at xs k) = length xs - 1"
  by (auto simp: del_at_def)

lemma del_at_before:
  "1 \<le> k \<Longrightarrow> k \<le> int (length xs) \<Longrightarrow> i < nat (k - 1) \<Longrightarrow> del_at xs k ! i = xs ! i"
  by (auto simp: del_at_def nth_append)

lemma del_at_after:
  assumes "1 \<le> k" "k \<le> int (length xs)" "nat (k - 1) \<le> i" "i < length xs - 1"
  shows "del_at xs k ! i = xs ! Suc i"
proof -
  have len: "length (take (nat (k - 1)) xs) = nat (k - 1)" using assms by auto
  have k: "nat k = Suc (nat (k - 1))" using assms by auto
  have "del_at xs k ! i = drop (nat k) xs ! (i - nat (k - 1))"
    using assms len by (simp add: del_at_def nth_append)
  also have "\<dots> = xs ! (nat k + (i - nat (k - 1)))"
    using assms by (intro nth_drop) auto
  also have "nat k + (i - nat (k - 1)) = Suc i" using assms k by simp
  finally show ?thesis .
qed

lemma del_at_props:
  assumes "1 \<le> k" "k \<le> int (length xs)"
  shows "length (take (nat (k - 1)) xs @ drop (nat k) xs) = length xs - 1
      \<and> (\<forall>i. i < nat (k - 1) \<longrightarrow> (take (nat (k - 1)) xs @ drop (nat k) xs) ! i = xs ! i)
      \<and> (\<forall>i. nat (k - 1) \<le> i \<and> i < length xs - 1 \<longrightarrow>
             (take (nat (k - 1)) xs @ drop (nat k) xs) ! i = xs ! Suc i)"
  using del_at_length [OF assms] del_at_before [OF assms] del_at_after [OF assms]
  unfolding del_at_def by blast

text \<open>
  C8. Deleting position \<open>k\<close> with \<open>1 \<le> k \<le> n\<close> from a main task's sub-tasks or from a
  student's task lists leaves the \<open>n - 1\<close> other elements in their order: the elements
  before position \<open>k\<close> stay where they were and each later one moves down by one. Any
  other position, 0 included, raises IndexError and changes nothing.
\<close>

theorem delete_position:
  "(1 \<le> k \<and> k \<le> int (length (sub_tasks m)) \<longrightarrow>
      delete_sub_task m k
        = (None, m\<lparr>sub_tasks := take (nat (k - 1)) (sub_tasks m) @ drop (nat k) (sub_tasks m)\<rparr>)
      \<and> length (sub_tasks (snd (delete_sub_task m k))) = length (sub_tasks m) - 1
      \<and> (\<forall>i. i < nat (k - 1) \<longrightarrow> sub_tasks (snd (delete_sub_task m k)) ! i = sub_tasks m ! i)
      \<and> (\<forall>i. nat (k - 1) \<le> i \<and> i < length (sub_tasks m) - 1 \<longrightarrow>
            sub_tasks (snd (delete_sub_task m k)) ! i = sub_tasks m ! Suc i))
   \<and> (\<not> (1 \<le> k \<and> k \<le> int (length (sub_tasks m))) \<longrightarrow>
        delete_sub_task m k = (Some IndexError, m))
   \<and> (1 \<le> k \<and> k \<le> int (length (task_lists s)) \<longrightarrow>
      delete_task_list s k
        = (None, s\<lparr>task_lists := take (nat (k - 1)) (task_lists s) @ drop (nat k) (task_lists s)\<rparr>)
      \<and> length (task_lists (snd (delete_task_list s k))) = length (task_lists s) - 1
      \<and> (\<forall>i. i < nat (k - 1) \<longrightarrow> task_lists (snd (delete_task_list s k)) ! i = task_lists s ! i)
      \<and> (\<forall>i. nat (k - 1) \<le> i \<and> i < length (task_lists s) - 1 \<longrightarrow>
            task_lists (snd (delete_task_list s k)) ! i = task_lists s ! Suc i))
   \<and> (\<not> (1 \<le> k \<and> k \<le> int (length (task_lists s))) \<longrightarrow>
        delete_task_list s k = (Some IndexError, s))"
proof -
  have sub: "delete_sub_task m k
        = (None, m\<lparr>sub_tasks := take (nat (k - 1)) (sub_tasks m) @ drop (nat k) (sub_tasks m)\<rparr>)
      \<and> length (sub_tasks (snd (delete_sub_task m k))) = length (sub_tasks m) - 1
      \<and> (\<forall>i. i < nat (k - 1) \<longrightarrow> sub_tasks (snd (delete_sub_task m k)) ! i = sub_tasks m ! i)
      \<and> (\<forall>i. nat (k - 1) \<le> i \<and> i < length (sub_tasks m) - 1 \<longrightarrow>
            sub_tasks (snd (delete_sub_task m k)) ! i = sub_tasks m ! Suc i)"
    if "1 \<le> k" "k \<le> int (length (sub_tasks m))"
  proof -
    have d: "delete_sub_task m k
        = (None, m\<lparr>sub_tasks := take (nat (k - 1)) (sub_tasks m) @ drop (nat k) (sub_tasks m)\<rparr>)"
      using that by (simp add: delete_sub_task_def del_at_def)
    show ?thesis
      unfolding d using del_at_props [OF that] by (simp del: length_append)
  qed
  have tl: "delete_task_list s k
        = (None, s\<lparr>task_lists := take (nat (k - 1)) (task_lists s) @ drop (nat k) (task_lists s)\<rparr>)
      \<and> length (task_lists (snd (delete_task_list s k))) = length (task_lists s) - 1
      \<and> (\<forall>i. i < nat (k - 1) \<longrightarrow> task_lists (snd (delete_task_list s k)) ! i = task_lists s ! i)
      \<and> (\<forall>i. nat (k - 1) \<le> i \<and> i < length (task_lists s) - 1 \<longrightarrow>
            task_lists (snd (delete_task_list s k)) ! i = task_lists s ! Suc i)"
    if "1 \<le> k" "k \<le> int (length (task_lists s))"
  proof -
    have d: "delete_task_list s k
        = (None, s\<lparr>task_lists := take (nat (k - 1)) (task_lists s) @ drop (nat k) (task_lists s)\<rparr>)"
      using that by (simp add: delete_task_list_def del_at_def)
    show ?thesis
      unfolding d using del_at_props [OF that] by (simp del: length_append)
  qed
  have out1: "delete_sub_task m k = (Some IndexError, m)"
    if "\<not> (1 \<le> k \<and> k \<le> int (length (sub_tasks m)))"
    using that by (simp add: delete_sub_task_def)
  have out2: "delete_task_list s k = (Some IndexError, s)"
    if "\<not> (1 \<le> k \<and> k \<le> int (length (task_lists s)))"
    using that by (simp add: delete_task_list_def)
  from sub tl out1 out2 show ?thesis by blast
qed

theorem delete_position_witness:
  "delete_sub_task (essay\<lparr>sub_tasks := [draft_intro, late_sub_task, draft_intro]\<rparr>) 2
     = (None, essay\<lparr>sub_tasks := [draft_intro, draft_intro]\<rparr>)
   \<and> delete_sub_task (essay\<lparr>sub_tasks := [draft_intro]\<rparr>) 0
     = (Some IndexError, essay\<lparr>sub_tasks := [draft_intro]\<rparr>)
   \<and> delete_sub_task (essay\<lparr>sub_tasks := [draft_intro]\<rparr>) 2
     = (Some IndexError, essay\<lparr>sub_tasks := [draft_intro]\<rparr>)
   \<and> delete_task_list \<lparr>student_id = ''s1'', password = ''pw'', task_lists = [essay]\<rparr> 1
     = (None, \<lparr>student_id = ''s1'', password = ''pw'', task_lists = []\<rparr>)
   \<and> delete_task_list \<lparr>student_id = ''s1'', password = ''pw'', task_lists = [essay]\<rparr> 0
     = (Some IndexError, \<lparr>student_id = ''s1'', password = ''pw'', task_lists = [essay]\<rparr>)"
  using delete_position [of 2 "essay\<lparr>sub_tasks := [draft_intro, late_sub_task, draft_intro]\<rparr>"
           "\<lparr>student_id = ''s1'', password = ''pw'', task_lists = [essay]\<rparr>"]
    delete_position [of 0 "essay\<lparr>sub_tasks := [draft_intro]\<rparr>"
           "\<lparr>student_id = ''s1'', password = ''pw'', task_lists = [essay]\<rparr>"]
    delete_position [of 1 "essay\<lparr>sub_tasks := [draft_intro]\<rparr>"
           "\<lparr>student_id = ''s1'', password = ''pw'', task_lists = [essay]\<rparr>"]
  by (simp add: delete_sub_task_def delete_task_list_def del_at_def)

section \<open>Searching the sub-tasks\<close>






section \<open>Serializing an absent due date\<close>

text \<open>
  C9. The dictionary of a sub-task without due date has \<open>None\<close> in its field
  \<open>due_date\<close>: not the string \<open>None\<close> and not the empty string.
\<close>

theorem absent_due_date_is_null:
  "st_due_date s = None \<longrightarrow>
     py_getitem (SubTask_to_dict s) ''due_date'' = Inr PNone
     \<and> py_getitem (SubTask_to_dict s) ''due_date'' \<noteq> Inr (PStr ''None'')
     \<and> py_getitem (SubTask_to_dict s) ''due_date'' \<noteq> Inr (PStr [])"
  by (simp add: SubTask_to_dict_def date_field_def)

theorem absent_due_date_is_null_witness:
  "st_due_date (draft_intro\<lparr>st_due_date := None\<rparr>) = None
   \<and> py_getitem (SubTask_to_dict (draft_intro\<lparr>st_due_date := None\<rparr>)) ''due_date'' = Inr PNone"
  using absent_due_date_is_null [of "draft_intro\<lparr>st_due_date := None\<rparr>"]
  by simp

section \<open>Reading back an absent due date\<close>

lemma SubTask_from_dict_absent:
  "st_due_date s = None \<Longrightarrow> SubTask_from_dict repr (SubTask_to_dict s) = Inl ValueError"
  by (simp add: SubTask_from_dict_def SubTask_to_dict_def date_field_def bind_def
      SubTask_init_def strptime_None)

lemma MainTask_from_dict_absent:
  "mt_due_date m = None \<Longrightarrow> MainTask_from_dict repr (MainTask_to_dict m) = Inl ValueError"
  by (simp add: MainTask_from_dict_def MainTask_to_dict_def date_field_def bind_def
      MainTask_init_def strptime_None)

text \<open>
  C10. \<open>from_dict\<close> applies \<open>str\<close> to the field \<open>due_date\<close>, which turns \<open>None\<close> into the
  string \<open>None\<close>; the constructor passes that non-empty string to \<open>strptime\<close>, which
  raises ValueError. So \<open>from_dict\<close> fails on the dictionary of every sub-task, and of
  every main task, that has no due date.
\<close>

theorem from_dict_of_absent_due_date_fails:
  "py_str repr PNone = ''None'' \<and> strptime ''None'' = Inl ValueError
   \<and> (st_due_date s = None \<longrightarrow> SubTask_from_dict repr (SubTask_to_dict s) = Inl ValueError)
   \<and> (mt_due_date m = None \<longrightarrow> MainTask_from_dict repr (MainTask_to_dict m) = Inl ValueError)"
  by (simp add: SubTask_from_dict_absent MainTask_from_dict_absent strptime_None)

theorem from_dict_of_absent_due_date_fails_witness:
  "st_due_date (draft_intro\<lparr>st_due_date := None\<rparr>) = None
   \<and> SubTask_from_dict (\<lambda>v. []) (SubTask_to_dict (draft_intro\<lparr>st_due_date := None\<rparr>)) = Inl ValueError
   \<and> mt_due_date (essay\<lparr>mt_due_date := None\<rparr>) = None
   \<and> MainTask_from_dict (\<lambda>v. []) (MainTask_to_dict (essay\<lparr>mt_due_date := None\<rparr>)) = Inl ValueError"
  using from_dict_of_absent_due_date_fails [of "\<lambda>v. []" "draft_intro\<lparr>st_due_date := None\<rparr>"
      "essay\<lparr>mt_due_date := None\<rparr>"]
  by simp

section \<open>Reading back a student\<close>

lemma bind_args_from_dict:
  "bind_args [''student_id'', ''password'', ''task_lists'', ''is_hashed'']
     [a, b, c, d] [(''is_hashed'', e)] = Inl TypeError"
  by (simp add: bind_args_def)

lemma Student_call_from_dict:
  "Student_call sha256 [a, b, c, d] [(''is_hashed'', e)] = Inl TypeError"
  by (simp add: Student_call_def bind_args_from_dict bind_def)

lemma Student_from_dict_never_returns:
  "Student_from_dict sha256 repr sid data \<noteq> Inr student"
  by (simp add: Student_from_dict_def Student_call_from_dict bind_def split: sum.splits)

text \<open>
  C1. The round trip does not hold: \<open>from_dict\<close> on the dictionary of the student
  \<open>student1\<close> with the password \<open>password123\<close> and no task lists raises TypeError. The
  constructor call gives \<open>is_hashed\<close> twice, as the fourth positional argument and by
  its name, so no call of \<open>from_dict\<close> returns a student.
\<close>

theorem Student_from_dict_raises:
  "Student_from_dict sha256 repr ''student1''
     (Student_to_dict (Student_init sha256 ''student1'' ''password123'' None False))
   = Inl TypeError"
  by (simp add: Student_from_dict_def Student_to_dict_def Student_init_def
      Student_call_from_dict bind_def)

section \<open>Loading the store\<close>

lemma map_result_never:
  assumes "\<And>x y. f x \<noteq> Inr y" and "map_result f xs = Inr ys"
  shows "ys = []"
proof (cases xs)
  case Nil
  with assms(2) show ?thesis by simp
next
  case (Cons x xs')
  from assms(1) [of x] obtain e where "f x = Inl e" by (cases "f x") auto
  with Cons assms(2) show ?thesis by (simp add: bind_def)
qed

lemma load_students_always_empty:
  "fst (load_students sha256 repr filename read) = []"
proof -
  let ?f = "\<lambda>item. bind (Student_from_dict sha256 repr (fst item) (snd item))
                    (\<lambda>student. Inr (fst item, student))"
  have never: "?f x \<noteq> Inr y" for x y
    by (cases "Student_from_dict sha256 repr (fst x) (snd x)")
       (simp_all add: bind_def Student_from_dict_never_returns)
  show ?thesis
  proof (cases "bind read (\<lambda>data. bind (py_items data) (map_result ?f))")
    case (Inl e)
    then show ?thesis by (cases e) (simp_all add: load_students_def)
  next
    case (Inr students)
    then obtain kvs where "map_result ?f kvs = Inr students"
      by (auto simp: bind_def split: sum.splits)
    from map_result_never [of ?f, OF never this] Inr show ?thesis
      by (simp add: load_students_def)
  qed
qed

text \<open>
  C7. \<open>load_students\<close> returns normally with an empty store when the file is missing, and
  with an empty store and a printed diagnostic when its content is not JSON.
\<close>

theorem load_students_degrades_to_empty:
  "load_students sha256 repr filename (Inl FileNotFoundError) = ([], [File_not_found filename])
   \<and> load_students sha256 repr filename (Inl JSONDecodeError) = ([], [Error_decoding_JSON])"
  by (simp add: load_students_def bind_def)

section \<open>Credentials: verifying a hashed password\<close>

lemma hex_digit_in: "hex_digit n \<in> set ''0123456789abcdef''"
  unfolding hex_digit_def by (rule nth_mem) simp

lemma hex_digit_not_colon: "hex_digit n \<noteq> CHR '':''"
proof
  assume "hex_digit n = CHR '':''"
  with hex_digit_in [of n] have "CHR '':'' \<in> set ''0123456789abcdef''" by simp
  then show False by simp
qed

lemma colon_notin_hexdigest: "CHR '':'' \<notin> set (hexdigest bytes)"
  by (induction bytes) (auto simp: hexdigest_def hex_byte_def hex_digit_not_colon [symmetric])

lemma split_on_absent: "c \<notin> set s \<Longrightarrow> split_on c s = [s]"
  by (induction s) auto

lemma split_on_first: "c \<notin> set a \<Longrightarrow> split_on c (a @ c # b) = a # split_on c b"
  by (induction a) auto

lemma split_hash_password:
  "split_on CHR '':'' (hash_password sha256 p)
     = [hexdigest (sha256 (take 16 (hexdigest (sha256 p)) @ p)), take 16 (hexdigest (sha256 p))]"
proof -
  have salt: "CHR '':'' \<notin> set (take 16 (hexdigest (sha256 p)))"
    using colon_notin_hexdigest [of "sha256 p"] by (auto dest: in_set_takeD)
  show ?thesis
    by (simp add: hash_password_def Let_def split_on_first [OF colon_notin_hexdigest]
        split_on_absent [OF salt])
qed

text \<open>
  C5. The credential of a password is the hexadecimal digest of salt and password, a
  colon, and the salt, where the salt is the first 16 characters of the hexadecimal
  digest of the password; and verifying a password against its own credential returns
  true. The hexadecimal text has no colon, so the split of the credential gives back the
  two parts.
\<close>

theorem verify_hash_password:
  "hash_password sha256 p
     = hexdigest (sha256 (take 16 (hexdigest (sha256 p)) @ p)) @ '':''
         @ take 16 (hexdigest (sha256 p))
   \<and> verify_password sha256 (Student_init sha256 sid p tls False) p = Inr True"
  by (simp add: verify_password_def Student_init_def split_hash_password)
     (simp add: hash_password_def Let_def)

end
